theory Spec2Isabelle
  imports Main
begin

section \<open>Values of the JavaScript run time\<close>

text \<open>
  The program of \<^verbatim>\<open>src/app.js\<close> reads two JSON documents of the statistics service by
  fixed key paths. A parsed document is a value of \<open>jsval\<close>; \<open>JUndefined\<close> is what
  reading an absent property gives. The type \<open>'n\<close> stands for the numbers of the run
  time, and the parameter \<open>ns\<close> of the functions below is its conversion of a number to
  text (used by string concatenation and by \<^verbatim>\<open>Array.prototype.join\<close>).
  The members of an object are kept in the order of the document.

  Text is a list of 8-bit characters: code units above 255 are outside this development.
\<close>

datatype error = TypeError | SyntaxError | UpstreamError | MulterError string

datatype 'n jsval =
    JUndefined
  | JNull
  | JBool bool
  | JNum 'n
  | JStr string
  | JArr "'n jsval list"
  | JObj "(string \<times> 'n jsval) list"

datatype 'a promise = Resolved 'a | Rejected error | Pending

text \<open>Sequencing of computations that may throw: the first error wins.\<close>

definition bind :: "error + 'a \<Rightarrow> ('a \<Rightarrow> error + 'b) \<Rightarrow> error + 'b" where
  "bind r f = (case r of Inl e \<Rightarrow> Inl e | Inr v \<Rightarrow> f v)"

fun map_result :: "('a \<Rightarrow> error + 'b) \<Rightarrow> 'a list \<Rightarrow> error + 'b list" where
  "map_result f [] = Inr []"
| "map_result f (x # xs) =
     (case f x of
        Inl e \<Rightarrow> Inl e
      | Inr y \<Rightarrow> (case map_result f xs of Inl e \<Rightarrow> Inl e | Inr ys \<Rightarrow> Inr (y # ys)))"

text \<open>
  \<^verbatim>\<open>v[k]\<close> for a property name \<open>k\<close>. Reading a property of \<^verbatim>\<open>undefined\<close> or
  \<^verbatim>\<open>null\<close> throws a TypeError; an object gives its own member or \<^verbatim>\<open>undefined\<close>;
  every other value gives \<^verbatim>\<open>undefined\<close>. The names this program reads
  (\<^verbatim>\<open>teams\<close>, \<^verbatim>\<open>status\<close>, \<^verbatim>\<open>gamePk\<close>, \<^verbatim>\<open>"ID" + playerId\<close>, ...) are neither
  indices nor names of a built-in prototype, so no inherited property is ever found.
\<close>

fun get_prop :: "'n jsval \<Rightarrow> string \<Rightarrow> error + 'n jsval" where
  "get_prop JUndefined k = Inl TypeError"
| "get_prop JNull k = Inl TypeError"
| "get_prop (JObj kvs) k = Inr (case map_of kvs k of Some v \<Rightarrow> v | None \<Rightarrow> JUndefined)"
| "get_prop v k = Inr JUndefined"

text \<open>
  \<^verbatim>\<open>v[0]\<close>: the first element of an array, the first character of a string, the member
  \<^verbatim>\<open>"0"\<close> of an object.
\<close>

fun get_0 :: "'n jsval \<Rightarrow> error + 'n jsval" where
  "get_0 JUndefined = Inl TypeError"
| "get_0 JNull = Inl TypeError"
| "get_0 (JArr xs) = Inr (case xs of [] \<Rightarrow> JUndefined | x # _ \<Rightarrow> x)"
| "get_0 (JStr s) = Inr (case s of [] \<Rightarrow> JUndefined | c # _ \<Rightarrow> JStr [c])"
| "get_0 (JObj kvs) = Inr (case map_of kvs ''0'' of Some v \<Rightarrow> v | None \<Rightarrow> JUndefined)"
| "get_0 v = Inr JUndefined"

text \<open>
  \<^verbatim>\<open>Array.prototype.join\<close> with the separator \<^verbatim>\<open>","\<close>, over the texts of the
  elements.
\<close>

fun join_strs :: "(error + string) list \<Rightarrow> error + string" where
  "join_strs [] = Inr []"
| "join_strs [r] = r"
| "join_strs (r # rs) =
     (case r of
        Inl e \<Rightarrow> Inl e
      | Inr s \<Rightarrow> (case join_strs rs of Inl e \<Rightarrow> Inl e | Inr t \<Rightarrow> Inr (s @ '','' @ t)))"

fun nullish :: "'n jsval \<Rightarrow> bool" where
  "nullish JUndefined = True"
| "nullish JNull = True"
| "nullish v = False"

fun primitive :: "'n jsval \<Rightarrow> bool" where
  "primitive (JArr xs) = False"
| "primitive (JObj kvs) = False"
| "primitive v = True"

text \<open>
  The text of a value as the operator \<^verbatim>\<open>+\<close> with a string operand builds it. An array
  is joined (\<^verbatim>\<open>undefined\<close> and \<^verbatim>\<open>null\<close> elements give the empty text). A parsed object
  has no callable member, so one with a member \<^verbatim>\<open>toString\<close> of its own cannot be
  converted (TypeError); every other object is \<^verbatim>\<open>[object Object]\<close>.
\<close>

fun to_str :: "('n \<Rightarrow> string) \<Rightarrow> 'n jsval \<Rightarrow> error + string" where
  "to_str ns JUndefined = Inr ''undefined''"
| "to_str ns JNull = Inr ''null''"
| "to_str ns (JBool b) = Inr (if b then ''true'' else ''false'')"
| "to_str ns (JNum n) = Inr (ns n)"
| "to_str ns (JStr s) = Inr s"
| "to_str ns (JArr xs) =
     join_strs (map (\<lambda>x. if nullish x then Inr [] else to_str ns x) xs)"
| "to_str ns (JObj kvs) =
     (if ''toString'' \<in> set (map fst kvs) then Inl TypeError else Inr ''[object Object]'')"

text \<open>
  \<^verbatim>\<open>v == "Live"\<close>. A string is compared as it is. A number or a boolean is compared
  with the number that \<^verbatim>\<open>"Live"\<close> denotes, which is NaN, so the comparison is false;
  \<^verbatim>\<open>undefined\<close> and \<^verbatim>\<open>null\<close> equal no string. An array or an object is converted
  to its text first.
\<close>

fun loose_eq_Live :: "('n \<Rightarrow> string) \<Rightarrow> 'n jsval \<Rightarrow> error + bool" where
  "loose_eq_Live ns (JStr s) = Inr (s = ''Live'')"
| "loose_eq_Live ns (JArr xs) = bind (to_str ns (JArr xs)) (\<lambda>s. Inr (s = ''Live''))"
| "loose_eq_Live ns (JObj kvs) = bind (to_str ns (JObj kvs)) (\<lambda>s. Inr (s = ''Live''))"
| "loose_eq_Live ns v = Inr False"

text \<open>Decimal text of a natural number, as the literals of the team table print.\<close>

fun show_nat :: "nat \<Rightarrow> string" where
  "show_nat n =
     (if n < 10 then [''0123456789'' ! n]
      else show_nat (n div 10) @ [''0123456789'' ! (n mod 10)])"

declare show_nat.simps [simp del]

section \<open>The team table\<close>

definition teamNameMap :: "(string \<times> nat) list" where
  "teamNameMap =
    [(''NJD'', 1), (''NYI'', 2), (''NYR'', 3), (''PHI'', 4), (''PIT'', 5), (''BOS'', 6),
     (''BUF'', 7), (''MTL'', 8), (''OTT'', 9), (''TOR'', 10), (''CAR'', 12), (''FLA'', 13),
     (''TBL'', 14), (''WSH'', 15), (''CHI'', 16), (''DET'', 17), (''NSH'', 18), (''STL'', 19),
     (''CGY'', 20), (''COL'', 21), (''EDM'', 22), (''VAN'', 23), (''ANA'', 24), (''DAL'', 25),
     (''LAK'', 26), (''SJS'', 28), (''CBJ'', 29), (''MIN'', 30), (''WPG'', 52), (''ARI'', 53),
     (''VGK'', 54)]"

text \<open>
  \<^verbatim>\<open>obj.hasOwnProperty(word)\<close>: the members written in the object literal, and none
  of those inherited from \<^verbatim>\<open>Object.prototype\<close>, which plain property access
  (\<open>has_property\<close>, the operator \<^verbatim>\<open>in\<close>) would find as well.
\<close>

definition hasOwnProperty :: "(string \<times> 'v) list \<Rightarrow> string \<Rightarrow> bool" where
  "hasOwnProperty obj word = (word \<in> set (map fst obj))"

definition object_prototype_names :: "string list" where
  "object_prototype_names =
    [''constructor'', ''hasOwnProperty'', ''isPrototypeOf'', ''propertyIsEnumerable'',
     ''toLocaleString'', ''toString'', ''valueOf'', ''__proto__'', ''__defineGetter__'',
     ''__defineSetter__'', ''__lookupGetter__'', ''__lookupSetter__'']"

definition has_property :: "(string \<times> 'v) list \<Rightarrow> string \<Rightarrow> bool" where
  "has_property obj word = (hasOwnProperty obj word \<or> word \<in> set object_prototype_names)"

section \<open>Splitting the detected text\<close>

text \<open>
  The characters that \<^verbatim>\<open>[\s\n]\<close> matches, among the 8-bit ones: tab, line feed,
  vertical tab, form feed, carriage return, space and the no-break space.
\<close>

definition is_ws :: "char \<Rightarrow> bool" where
  "is_ws c = (of_char c \<in> {9, 10, 11, 12, 13, 32, 160 :: nat})"

text \<open>
  \<^verbatim>\<open>description.split(/[\s\n]+/)\<close>: the pieces between the maximal runs of white space.
  A text that starts or ends with white space has an empty first or last piece, and the
  empty text gives one empty piece. The first argument is the piece read so far.
\<close>

function split_ws :: "string \<Rightarrow> string \<Rightarrow> string list" where
  "split_ws cur [] = [cur]"
| "split_ws cur (c # cs) =
     (if is_ws c then cur # split_ws [] (dropWhile is_ws cs)
      else split_ws (cur @ [c]) cs)"
  by pat_completeness auto
termination
  by (relation "measure (\<lambda>(cur, s). length s)")
     (auto simp: length_dropWhile_le less_Suc_eq_le)

definition js_split :: "string \<Rightarrow> string list" where
  "js_split description = split_ws [] description"

text \<open>
  The reference of the specification for the same step: the tokens of a text are its
  maximal runs of characters that are not white space; the tokens that are keys of the
  table are kept and replaced by their identifiers.
\<close>

function spec_tokens :: "string \<Rightarrow> string list" where
  "spec_tokens s =
     (case dropWhile is_ws s of
        [] \<Rightarrow> []
      | c # cs \<Rightarrow>
          takeWhile (\<lambda>x. \<not> is_ws x) (c # cs) # spec_tokens (dropWhile (\<lambda>x. \<not> is_ws x) (c # cs)))"
  by pat_completeness auto
termination
proof (relation "measure length")
  show "wf (measure length)" by simp
next
  fix s :: string and c cs
  assume d: "dropWhile is_ws s = c # cs"
  have "\<not> is_ws c" using d by (metis hd_dropWhile list.sel(1) list.distinct(1))
  then have "length (dropWhile (\<lambda>x. \<not> is_ws x) (c # cs)) \<le> length cs"
    by (simp add: length_dropWhile_le)
  moreover have "length (c # cs) \<le> length s"
    using d by (metis length_dropWhile_le)
  ultimately show "(dropWhile (\<lambda>x. \<not> is_ws x) (c # cs), s) \<in> measure length"
    by simp
qed

declare spec_tokens.simps [simp del]

definition spec_team_ids :: "string \<Rightarrow> nat list" where
  "spec_team_ids description =
     map (\<lambda>w. the (map_of teamNameMap w))
         (filter (\<lambda>w. w \<in> set (map fst teamNameMap)) (spec_tokens description))"

section \<open>The team resolver\<close>

text \<open>
  The body of \<^verbatim>\<open>words.forEach\<close> in \<^verbatim>\<open>getTeamIdsFromText\<close>: a word that is a member
  of the table's own pushes the table's value for it; the guard excludes every other word.
\<close>

definition push_team :: "nat list \<Rightarrow> string \<Rightarrow> nat list" where
  "push_team teams word =
     (if hasOwnProperty teamNameMap word
      then (case map_of teamNameMap word of Some t \<Rightarrow> teams @ [t] | None \<Rightarrow> teams)
      else teams)"

definition collect_teams :: "string list \<Rightarrow> nat list" where
  "collect_teams words = foldl push_team [] words"

section \<open>The game resolver and the boxscore formatter\<close>

text \<open>The two addresses requested from the statistics service.\<close>

definition getCurrentGame_requestURL :: "nat \<Rightarrow> string" where
  "getCurrentGame_requestURL teamID =
     ''https://statsapi.web.nhl.com/api/v1/teams/'' @ show_nat teamID
       @ ''?expand=team.schedule.next&&expand=team.schedule.previous''"

definition getGameStats_requestURL :: "('n \<Rightarrow> string) \<Rightarrow> 'n jsval \<Rightarrow> error + string" where
  "getGameStats_requestURL ns gameID =
     bind (to_str ns gameID)
       (\<lambda>g. Inr (''https://statsapi.web.nhl.com/api/v1/game/'' @ g @ ''/boxscore''))"

text \<open>
  \<^verbatim>\<open>json['teams'][0][schedule]['dates'][0]['games'][0]\<close>, for \<open>schedule\<close> one of
  \<^verbatim>\<open>nextGameSchedule\<close> and \<^verbatim>\<open>previousGameSchedule\<close>.
\<close>

definition scheduled_game :: "'n jsval \<Rightarrow> string \<Rightarrow> error + 'n jsval" where
  "scheduled_game json schedule =
     bind (get_prop json ''teams'') (\<lambda>teams.
     bind (get_0 teams) (\<lambda>team.
     bind (get_prop team schedule) (\<lambda>sched.
     bind (get_prop sched ''dates'') (\<lambda>dates.
     bind (get_0 dates) (\<lambda>date.
     bind (get_prop date ''games'') (\<lambda>games.
     get_0 games))))))"

text \<open>
  The body of the \<^verbatim>\<open>try\<close> block of \<^verbatim>\<open>getCurrentGame\<close> between the parse of the
  schedule and the call of \<^verbatim>\<open>getGameStats\<close>: the value of \<^verbatim>\<open>gameId\<close>, or the error
  thrown.
\<close>

definition select_game :: "('n \<Rightarrow> string) \<Rightarrow> 'n jsval \<Rightarrow> error + 'n jsval" where
  "select_game ns json =
     bind (scheduled_game json ''nextGameSchedule'') (\<lambda>nextGame.
     bind (get_prop nextGame ''status'') (\<lambda>status.
     bind (get_prop status ''abstractGameState'') (\<lambda>state.
     bind (loose_eq_Live ns state) (\<lambda>live.
       if live then get_prop nextGame ''gamePk''
       else bind (scheduled_game json ''previousGameSchedule'') (\<lambda>prevGame.
            get_prop prevGame ''gamePk'')))))"

text \<open>
  The callback of \<^verbatim>\<open>onIce.map\<close> in \<^verbatim>\<open>formatJson\<close>, for the side \<open>side\<close>
  (\<^verbatim>\<open>home\<close> or \<^verbatim>\<open>away\<close>); \<open>roster_person\<close> is
  \<^verbatim>\<open>players['ID' + playerId]['person']\<close>.
\<close>

definition roster_person :: "('n \<Rightarrow> string) \<Rightarrow> 'n jsval \<Rightarrow> 'n jsval \<Rightarrow> error + 'n jsval" where
  "roster_person ns players playerId =
     bind (to_str ns playerId) (\<lambda>pid.
     bind (get_prop players (''ID'' @ pid)) (\<lambda>entry.
     get_prop entry ''person''))"

definition player_record :: "('n \<Rightarrow> string) \<Rightarrow> 'n jsval \<Rightarrow> string \<Rightarrow> 'n jsval \<Rightarrow> error + 'n jsval" where
  "player_record ns json side playerId =
     bind (get_prop json ''teams'') (\<lambda>teams.
     bind (get_prop teams side) (\<lambda>s.
     bind (get_prop s ''players'') (\<lambda>players.
     bind (roster_person ns players playerId) (\<lambda>player.
     bind (get_prop player ''fullName'') (\<lambda>fullName.
     bind (get_prop player ''primaryNumber'') (\<lambda>number.
     Inr (JObj [(''fullName'', fullName), (''number'', number)])))))))"

text \<open>
  \<^verbatim>\<open>v.map(f)\<close>: only an array has the method; calling it on anything else throws.
\<close>

definition array_map :: "('n jsval \<Rightarrow> error + 'n jsval) \<Rightarrow> 'n jsval \<Rightarrow> error + 'n jsval" where
  "array_map f v =
     (case v of
        JArr xs \<Rightarrow> bind (map_result f xs) (\<lambda>ys. Inr (JArr ys))
      | _ \<Rightarrow> Inl TypeError)"

definition team_name :: "'n jsval \<Rightarrow> string \<Rightarrow> error + 'n jsval" where
  "team_name json side =
     bind (get_prop json ''teams'') (\<lambda>teams.
     bind (get_prop teams side) (\<lambda>s.
     bind (get_prop s ''team'') (\<lambda>team.
     get_prop team ''name'')))"

definition on_ice :: "('n \<Rightarrow> string) \<Rightarrow> 'n jsval \<Rightarrow> string \<Rightarrow> error + 'n jsval" where
  "on_ice ns json side =
     bind (get_prop json ''teams'') (\<lambda>teams.
     bind (get_prop teams side) (\<lambda>s.
     bind (get_prop s ''onIce'') (\<lambda>ids.
     array_map (player_record ns json side) ids)))"

definition formatJson :: "('n \<Rightarrow> string) \<Rightarrow> 'n jsval \<Rightarrow> error + 'n jsval" where
  "formatJson ns json =
     bind (team_name json ''home'') (\<lambda>home_name.
     bind (team_name json ''away'') (\<lambda>away_name.
     bind (on_ice ns json ''home'') (\<lambda>home_onIce.
     bind (on_ice ns json ''away'') (\<lambda>away_onIce.
     Inr (JObj [(''home'', JObj [(''name'', home_name), (''onIce'', home_onIce)]),
                (''away'', JObj [(''name'', away_name), (''onIce'', away_onIce)])])))))"

text \<open>
  The statistics service is a function \<open>fetch\<close> of the address requested: \<open>None\<close> when the
  response never ends, \<open>Some (Inl SyntaxError)\<close> when \<^verbatim>\<open>JSON.parse\<close> throws on its
  body, \<open>Some (Inr json)\<close> the parsed body otherwise. A call returns the addresses
  requested, in order, and the state of the promise.
\<close>

definition getGameStats ::
  "('n \<Rightarrow> string) \<Rightarrow> (string \<Rightarrow> (error + 'n jsval) option) \<Rightarrow> 'n jsval
     \<Rightarrow> string list \<times> 'n jsval promise" where
  "getGameStats ns fetch gameID =
     (case getGameStats_requestURL ns gameID of
        Inl e \<Rightarrow> ([], Rejected e)
      | Inr requestURL \<Rightarrow>
          ([requestURL],
           case fetch requestURL of
             None \<Rightarrow> Pending
           | Some (Inl err) \<Rightarrow> Rejected err
           | Some (Inr json) \<Rightarrow>
               (case formatJson ns json of
                  Inl err \<Rightarrow> Rejected err
                | Inr obj \<Rightarrow> Resolved obj)))"

definition getCurrentGame ::
  "('n \<Rightarrow> string) \<Rightarrow> (string \<Rightarrow> (error + 'n jsval) option) \<Rightarrow> nat
     \<Rightarrow> string list \<times> 'n jsval promise" where
  "getCurrentGame ns fetch teamID =
     (let requestURL = getCurrentGame_requestURL teamID in
      case fetch requestURL of
        None \<Rightarrow> ([requestURL], Pending)
      | Some (Inl err) \<Rightarrow> ([requestURL], Rejected err)
      | Some (Inr json) \<Rightarrow>
          (case select_game ns json of
             Inl err \<Rightarrow> ([requestURL], Rejected err)
           | Inr gameId \<Rightarrow>
               (case getGameStats ns fetch gameId of
                  (requested, retVal) \<Rightarrow> (requestURL # requested, retVal))))"

definition getTeamIdsFromText ::
  "('n \<Rightarrow> string) \<Rightarrow> (string \<Rightarrow> (error + 'n jsval) option) \<Rightarrow> string
     \<Rightarrow> string list \<times> 'n jsval promise" where
  "getTeamIdsFromText ns fetch description =
     (let words = js_split description;
          teams = collect_teams words
      in if length teams = 0 then ([], Resolved (JObj []))
         else getCurrentGame ns fetch (teams ! 0))"

section \<open>The upload handler\<close>

text \<open>
  The collaborators of one request: the bucket, the write of the blob (\<open>Some err\<close> is the
  stream's \<^verbatim>\<open>error\<close> event, \<open>None\<close> its \<^verbatim>\<open>finish\<close>), the text detection (the
  \<^verbatim>\<open>textAnnotations\<close> of its result, or its rejection), the statistics service and the
  number printer. What the handler does is the list of its calls, in order.
\<close>

record annotation =
  description :: string

record uploaded_file =
  originalname :: string
  buffer :: string

record 'n services =
  bucket_name :: string
  store_write :: "string \<Rightarrow> string \<Rightarrow> error option"
  textDetection :: "string \<Rightarrow> error + annotation list"
  stats_get :: "string \<Rightarrow> (error + 'n jsval) option"
  num_text :: "'n \<Rightarrow> string"

datatype 'n event =
    StoreWrite string string
  | NextError error
  | TextDetect string
  | StatsGet string
  | Status nat
  | SendString string
  | Send "'n jsval"
  | Json "'n jsval"


text \<open>
  The \<^verbatim>\<open>finish\<close> handler of the blob stream. The branch for an empty annotation
  sequence sends the 404 and, having no \<^verbatim>\<open>return\<close>, goes on to the statement after the
  conditional with \<^verbatim>\<open>teamIds\<close> still \<^verbatim>\<open>undefined\<close>. A rejected or pending
  \<^verbatim>\<open>await\<close> leaves the handler without a further call.
\<close>

definition on_finish :: "'n services \<Rightarrow> string \<Rightarrow> 'n event list" where
  "on_finish sv blob_name =
     (let publicUrl = ''https://storage.googleapis.com/'' @ bucket_name sv @ ''/'' @ blob_name in
      TextDetect publicUrl #
      (case textDetection sv publicUrl of
         Inl err \<Rightarrow> []
       | Inr detections \<Rightarrow>
           if length detections > 0 then
             (case getTeamIdsFromText (num_text sv) (stats_get sv)
                     (description (detections ! 0)) of
                (requested, Resolved teamIds) \<Rightarrow>
                  map StatsGet requested @ [Status 200, Json teamIds]
              | (requested, Rejected err) \<Rightarrow> map StatsGet requested
              | (requested, Pending) \<Rightarrow> map StatsGet requested)
           else [Status 404, Send (JObj [(''error'', JStr ''No text in image'')]),
                 Status 200, Json JUndefined]))"

text \<open>
  The callback of the route \<^verbatim>\<open>POST /upload\<close>, run after the multipart middleware has
  set \<^verbatim>\<open>req.file\<close> (\<open>None\<close> when it has left \<^verbatim>\<open>req.file\<close> unset).
\<close>

definition upload_handler :: "'n services \<Rightarrow> uploaded_file option \<Rightarrow> 'n event list" where
  "upload_handler sv req_file =
     (case req_file of
        None \<Rightarrow> [Status 400, SendString ''No file uploaded.'']
      | Some file \<Rightarrow>
          StoreWrite (originalname file) (buffer file) #
          (case store_write sv (originalname file) (buffer file) of
             Some err \<Rightarrow> [NextError err]
           | None \<Rightarrow> on_finish sv (originalname file)))"











section \<open>Fixtures\<close>

text \<open>
  A schedule document whose next game has the given abstract state, and a boxscore document
  with two players on the ice of the away side and the given identifiers on the ice of the
  home side; numbers are natural numbers printed in decimal.
\<close>

definition schedule_fixture :: "string \<Rightarrow> nat jsval" where
  "schedule_fixture state =
     JObj [(''copyright'', JStr ''NHL''),
           (''teams'', JArr [JObj
              [(''id'', JNum 10),
               (''nextGameSchedule'', JObj [(''totalItems'', JNum 1), (''dates'', JArr [JObj
                  [(''date'', JStr ''2019-11-21''),
                   (''games'', JArr [JObj
                      [(''gamePk'', JNum 2019020345),
                       (''status'', JObj [(''abstractGameState'', JStr state)])]])]])]),
               (''previousGameSchedule'', JObj [(''totalItems'', JNum 1), (''dates'', JArr [JObj
                  [(''date'', JStr ''2019-11-19''),
                   (''games'', JArr [JObj
                      [(''gamePk'', JNum 2019020330),
                       (''status'', JObj [(''abstractGameState'', JStr ''Final'')])]])]])])]])]"

definition fixture_player :: "nat \<Rightarrow> string \<Rightarrow> string \<Rightarrow> string \<times> nat jsval" where
  "fixture_player pid fullName number =
     (''ID'' @ show_nat pid,
      JObj [(''person'', JObj [(''id'', JNum pid), (''fullName'', JStr fullName),
                               (''primaryNumber'', JStr number)]),
            (''jerseyNumber'', JStr number)])"

definition fixture_away_roster :: "(string \<times> nat jsval) list" where
  "fixture_away_roster =
     [fixture_player 8470642 ''Shea Weber'' ''6'',
      fixture_player 8471679 ''Carey Price'' ''31'',
      fixture_player 8476469 ''Joel Armia'' ''40'']"

definition fixture_home_roster :: "(string \<times> nat jsval) list" where
  "fixture_home_roster =
     [fixture_player 8475166 ''John Tavares'' ''91'',
      fixture_player 8479318 ''Auston Matthews'' ''34'']"

definition fixture_away :: "nat jsval" where
  "fixture_away =
     JObj [(''team'', JObj [(''id'', JNum 8), (''name'', JStr ''Montreal Canadiens'')]),
           (''players'', JObj fixture_away_roster),
           (''onIce'', JArr [JNum 8471679, JNum 8470642])]"

definition fixture_home :: "nat jsval list \<Rightarrow> nat jsval" where
  "fixture_home ids =
     JObj [(''team'', JObj [(''id'', JNum 10), (''name'', JStr ''Toronto Maple Leafs'')]),
           (''players'', JObj fixture_home_roster),
           (''onIce'', JArr ids)]"

definition boxscore_fixture :: "nat jsval list \<Rightarrow> nat jsval" where
  "boxscore_fixture ids =
     JObj [(''copyright'', JStr ''NHL''),
           (''teams'', JObj [(''away'', fixture_away), (''home'', fixture_home ids)])]"


section \<open>Lemmas on the team resolver\<close>

lemma hasOwn_iff: "hasOwnProperty m w = (map_of m w \<noteq> None)"
  by (simp add: hasOwnProperty_def map_of_eq_None_iff)

lemma push_team_none: "map_of teamNameMap w = None \<Longrightarrow> push_team acc w = acc"
  by (simp add: push_team_def hasOwn_iff)

lemma push_team_some: "map_of teamNameMap w = Some t \<Longrightarrow> push_team acc w = acc @ [t]"
  by (simp add: push_team_def hasOwn_iff)

lemma foldl_push_team:
  "foldl push_team acc ws =
     acc @ map (\<lambda>w. the (map_of teamNameMap w)) (filter (hasOwnProperty teamNameMap) ws)"
proof (induction ws arbitrary: acc)
  case Nil
  show ?case by simp
next
  case (Cons w ws)
  show ?case
  proof (cases "map_of teamNameMap w")
    case None
    then show ?thesis by (simp add: Cons.IH push_team_none hasOwn_iff)
  next
    case (Some t)
    then show ?thesis by (simp add: Cons.IH push_team_some hasOwn_iff)
  qed
qed

lemma spec_tokens_Nil: "spec_tokens [] = []"
  by (simp add: spec_tokens.simps)

lemma spec_tokens_ws: "is_ws c \<Longrightarrow> spec_tokens (c # cs) = spec_tokens cs"
  by (subst spec_tokens.simps, subst (2) spec_tokens.simps) simp

lemma spec_tokens_tok:
  "\<not> is_ws c \<Longrightarrow>
   spec_tokens (c # cs) =
     (c # takeWhile (\<lambda>x. \<not> is_ws x) cs) # spec_tokens (dropWhile (\<lambda>x. \<not> is_ws x) cs)"
  by (subst spec_tokens.simps) simp

lemma spec_tokens_dropWhile: "spec_tokens (dropWhile is_ws s) = spec_tokens s"
  by (induction s) (simp_all add: spec_tokens_ws)

lemma spec_tokens_word:
  "\<forall>x\<in>set cur. \<not> is_ws x \<Longrightarrow> cur \<noteq> [] \<Longrightarrow> (s = [] \<or> is_ws (hd s)) \<Longrightarrow>
   spec_tokens (cur @ s) = cur # spec_tokens s"
proof -
  assume a: "\<forall>x\<in>set cur. \<not> is_ws x" and b: "cur \<noteq> []" and c: "s = [] \<or> is_ws (hd s)"
  obtain x xs where cur: "cur = x # xs" using b by (cases cur) auto
  have t: "takeWhile (\<lambda>x. \<not> is_ws x) (xs @ s) = xs"
    using a c cur by (cases s) (auto simp: takeWhile_append2 takeWhile_eq_all_conv)
  have d: "dropWhile (\<lambda>x. \<not> is_ws x) (xs @ s) = s"
    using a c cur by (cases s) (auto simp: dropWhile_append2 dropWhile_eq_Nil_conv)
  show ?thesis using a cur t d by (simp add: spec_tokens_tok)
qed

lemma split_ws_tokens:
  "\<forall>x\<in>set cur. \<not> is_ws x \<Longrightarrow>
   filter (\<lambda>w. w \<noteq> []) (split_ws cur s) = spec_tokens (cur @ s)"
proof (induction cur s rule: split_ws.induct)
  case (1 cur)
  show ?case
  proof (cases "cur = []")
    case True
    then show ?thesis by (simp add: spec_tokens_Nil)
  next
    case False
    then show ?thesis using spec_tokens_word [of cur "[]"] 1 by (simp add: spec_tokens_Nil)
  qed
next
  case (2 cur c cs)
  show ?case
  proof (cases "is_ws c")
    case True
    have ih: "filter (\<lambda>w. w \<noteq> []) (split_ws [] (dropWhile is_ws cs)) = spec_tokens cs"
      using "2.IH"(1) [OF True] by (simp add: spec_tokens_dropWhile)
    show ?thesis
    proof (cases "cur = []")
      case True
      with \<open>is_ws c\<close> ih show ?thesis by (simp add: spec_tokens_ws)
    next
      case False
      have "spec_tokens (cur @ c # cs) = cur # spec_tokens (c # cs)"
        using spec_tokens_word [of cur "c # cs"] "2.prems" False True by simp
      with True False ih show ?thesis by (simp add: spec_tokens_ws)
    qed
  next
    case False
    then show ?thesis using "2.IH"(2) "2.prems" by simp
  qed
qed

lemma js_split_tokens: "filter (\<lambda>w. w \<noteq> []) (js_split d) = spec_tokens d"
  using split_ws_tokens [of "[]" d] by (simp add: js_split_def)

lemma empty_not_key: "\<not> hasOwnProperty teamNameMap []"
  by (simp add: hasOwnProperty_def teamNameMap_def)

lemma filter_keys_js_split:
  "filter (hasOwnProperty teamNameMap) (js_split d) =
   filter (hasOwnProperty teamNameMap) (spec_tokens d)"
proof -
  have "filter (hasOwnProperty teamNameMap) (js_split d) =
        filter (hasOwnProperty teamNameMap) (filter (\<lambda>w. w \<noteq> []) (js_split d))"
    using empty_not_key by (auto simp: filter_filter intro: filter_cong)
  then show ?thesis by (simp only: js_split_tokens)
qed

lemma collect_teams_tokens:
  "collect_teams (js_split d) =
     map (\<lambda>w. the (map_of teamNameMap w)) (filter (hasOwnProperty teamNameMap) (spec_tokens d))"
  by (simp add: collect_teams_def foldl_push_team filter_keys_js_split)

lemma hasOwn_fun: "hasOwnProperty m = (\<lambda>w. w \<in> set (map fst m))"
  by (rule ext) (simp add: hasOwnProperty_def)

lemma spec_team_ids_alt:
  "spec_team_ids d =
     map (\<lambda>w. the (map_of teamNameMap w)) (filter (hasOwnProperty teamNameMap) (spec_tokens d))"
  by (simp add: spec_team_ids_def hasOwn_fun)

lemma table_size: "length teamNameMap = 31 \<and> distinct (map fst teamNameMap)"
  by (simp add: teamNameMap_def)

lemma inherited_names_not_keys:
  "filter (hasOwnProperty teamNameMap) object_prototype_names = []
   \<and> filter (has_property teamNameMap) object_prototype_names = object_prototype_names"
  by (simp add: object_prototype_names_def has_property_def hasOwnProperty_def teamNameMap_def)

section \<open>Lemmas on the documents\<close>

lemma bind_Inr [simp]: "bind (Inr v) f = f v"
  by (simp add: bind_def)

lemma bind_Inl [simp]: "bind (Inl e) f = Inl e"
  by (simp add: bind_def)

lemma loose_eq_Live_primitive: "primitive v \<Longrightarrow> loose_eq_Live ns v = Inr (v = JStr ''Live'')"
  by (cases v) simp_all

lemma getCurrentGame_selected:
  assumes "fetch (getCurrentGame_requestURL teamID) = Some (Inr json)"
    and "select_game ns json = Inr gameId"
  shows "getCurrentGame ns fetch teamID =
           (getCurrentGame_requestURL teamID # fst (getGameStats ns fetch gameId),
            snd (getGameStats ns fetch gameId))"
  using assms by (simp add: getCurrentGame_def Let_def split: prod.split)

lemma get_prop_error: "get_prop v k = Inl e \<Longrightarrow> e = TypeError"
  by (cases v) simp_all

lemma join_strs_error: "join_strs rs = Inl e \<Longrightarrow> Inl e \<in> set rs"
  by (induction rs rule: join_strs.induct) (auto split: sum.splits)

lemma to_str_error: "to_str ns v = Inl e \<Longrightarrow> e = TypeError"
proof (induction ns v rule: to_str.induct)
  case (6 ns xs)
  from "6.prems" have "join_strs (map (\<lambda>x. if nullish x then Inr [] else to_str ns x) xs) = Inl e"
    by simp
  then have "Inl e \<in> set (map (\<lambda>x. if nullish x then Inr [] else to_str ns x) xs)"
    by (rule join_strs_error)
  then obtain x where "x \<in> set xs" "\<not> nullish x" "to_str ns x = Inl e"
    by (auto split: if_splits)
  then show ?case using "6.IH" by blast
qed (auto split: if_splits)

lemma bind_error:
  "bind r f = Inl e \<Longrightarrow> (r = Inl e \<or> (\<exists>v. r = Inr v \<and> f v = Inl e))"
  by (cases r) simp_all

lemma roster_person_error: "roster_person ns players pid = Inl e \<Longrightarrow> e = TypeError"
  unfolding roster_person_def
  by (auto dest!: bind_error dest: get_prop_error to_str_error)

lemma player_record_error: "player_record ns json side pid = Inl e \<Longrightarrow> e = TypeError"
  unfolding player_record_def
  by (auto dest!: bind_error dest: get_prop_error roster_person_error)

lemma map_result_error:
  "map_result f xs = Inl e \<Longrightarrow> \<exists>x\<in>set xs. f x = Inl e"
  by (induction xs) (auto split: sum.splits)

lemma map_result_fails:
  "x \<in> set xs \<Longrightarrow> f x = Inl e \<Longrightarrow> \<exists>e'. map_result f xs = Inl e'"
  by (induction xs) (auto split: sum.splits)

lemma map_result_all2:
  "\<forall>x\<in>set xs. \<exists>y. f x = Inr y \<and> P x y \<Longrightarrow>
   \<exists>ys. map_result f xs = Inr ys \<and> list_all2 P xs ys"
  by (induction xs) (auto split: sum.splits)

lemma array_map_error:
  assumes "array_map f v = Inl e" and "\<And>x e. f x = Inl e \<Longrightarrow> e = TypeError"
  shows "e = TypeError"
  using assms
  by (cases v) (auto simp: array_map_def dest!: bind_error map_result_error)

lemma on_ice_error: "on_ice ns json side = Inl e \<Longrightarrow> e = TypeError"
  unfolding on_ice_def
  by (auto dest!: bind_error dest: get_prop_error array_map_error player_record_error)

lemma team_name_error: "team_name json side = Inl e \<Longrightarrow> e = TypeError"
  unfolding team_name_def
  by (auto dest!: bind_error dest: get_prop_error)

lemma formatJson_error: "formatJson ns json = Inl e \<Longrightarrow> e = TypeError"
  unfolding formatJson_def
  by (auto dest!: bind_error dest: on_ice_error team_name_error)

lemma bind_eq_Inr: "bind r f = Inr v \<longleftrightarrow> (\<exists>x. r = Inr x \<and> f x = Inr v)"
  by (cases r) simp_all

lemma formatJson_needs_on_ice:
  "formatJson ns json = Inr v \<Longrightarrow>
   (\<exists>h. on_ice ns json ''home'' = Inr h) \<and> (\<exists>a. on_ice ns json ''away'' = Inr a)"
  by (auto simp: formatJson_def bind_eq_Inr)

lemma player_record_missing:
  assumes "get_prop json ''teams'' = Inr teams"
    and "get_prop teams side = Inr s"
    and "get_prop s ''players'' = Inr players"
    and "to_str ns playerId = Inr pid"
    and "get_prop players (''ID'' @ pid) = Inr JUndefined"
  shows "player_record ns json side playerId = Inl TypeError"
proof -
  have "roster_person ns players playerId = Inl TypeError"
    unfolding roster_person_def by (simp only: assms bind_Inr get_prop.simps)
  then show ?thesis
    unfolding player_record_def by (simp only: assms bind_Inr bind_Inl)
qed

lemma on_ice_missing:
  assumes "get_prop json ''teams'' = Inr teams"
    and "get_prop teams side = Inr s"
    and "get_prop s ''onIce'' = Inr (JArr ids)"
    and "get_prop s ''players'' = Inr players"
    and "playerId \<in> set ids"
    and "to_str ns playerId = Inr pid"
    and "get_prop players (''ID'' @ pid) = Inr JUndefined"
  shows "\<exists>e. on_ice ns json side = Inl e"
proof -
  have "player_record ns json side playerId = Inl TypeError"
    using assms(1,2,4,6,7) by (rule player_record_missing)
  with assms(5) obtain e where m: "map_result (player_record ns json side) ids = Inl e"
    using map_result_fails [of playerId ids "player_record ns json side" TypeError] by blast
  have "on_ice ns json side = Inl e"
    unfolding on_ice_def array_map_def
    by (simp only: assms(1-3) m bind_Inr bind_Inl jsval.case)
  then show ?thesis by blast
qed

lemma player_record_ok:
  assumes "get_prop json ''teams'' = Inr teams"
    and "get_prop teams side = Inr s"
    and "get_prop s ''players'' = Inr players"
    and "roster_person ns players pid = Inr p" and "\<not> nullish p"
  shows "\<exists>r. player_record ns json side pid = Inr r \<and>
          (\<exists>person fullName number.
              roster_person ns players pid = Inr person
            \<and> get_prop person ''fullName'' = Inr fullName
            \<and> get_prop person ''primaryNumber'' = Inr number
            \<and> r = JObj [(''fullName'', fullName), (''number'', number)])"
  using assms by (cases p) (simp_all add: player_record_def)

lemma on_ice_ok:
  assumes "get_prop json ''teams'' = Inr teams"
    and "get_prop teams side = Inr s"
    and "get_prop s ''onIce'' = Inr (JArr ids)"
    and "get_prop s ''players'' = Inr players"
    and "\<forall>pid\<in>set ids. \<exists>p. roster_person ns players pid = Inr p \<and> \<not> nullish p"
  shows "\<exists>recs. on_ice ns json side = Inr (JArr recs) \<and>
          list_all2 (\<lambda>pid r. \<exists>person fullName number.
              roster_person ns players pid = Inr person
            \<and> get_prop person ''fullName'' = Inr fullName
            \<and> get_prop person ''primaryNumber'' = Inr number
            \<and> r = JObj [(''fullName'', fullName), (''number'', number)]) ids recs"
proof -
  have "\<forall>pid\<in>set ids. \<exists>r. player_record ns json side pid = Inr r \<and>
          (\<exists>person fullName number.
              roster_person ns players pid = Inr person
            \<and> get_prop person ''fullName'' = Inr fullName
            \<and> get_prop person ''primaryNumber'' = Inr number
            \<and> r = JObj [(''fullName'', fullName), (''number'', number)])"
    using player_record_ok [OF assms(1,2,4)] assms(5) by blast
  from map_result_all2 [OF this]
  obtain recs where "map_result (player_record ns json side) ids = Inr recs"
    and "list_all2 (\<lambda>pid r. \<exists>person fullName number.
              roster_person ns players pid = Inr person
            \<and> get_prop person ''fullName'' = Inr fullName
            \<and> get_prop person ''primaryNumber'' = Inr number
            \<and> r = JObj [(''fullName'', fullName), (''number'', number)]) ids recs"
    by blast
  then show ?thesis using assms(1-3) by (simp add: on_ice_def array_map_def)
qed

section \<open>Evaluation of the fixtures\<close>

lemma show_nat_eval:
  "show_nat 10 = ''10''" "show_nat 2019020345 = ''2019020345''"
  "show_nat 8470642 = ''8470642''" "show_nat 8471679 = ''8471679''"
  "show_nat 8476469 = ''8476469''" "show_nat 8475166 = ''8475166''"
  "show_nat 8479318 = ''8479318''" "show_nat 8477939 = ''8477939''"
  by (simp_all add: show_nat.simps)

lemma scheduled_fixture_next:
  "scheduled_game (schedule_fixture st) ''nextGameSchedule'' =
     Inr (JObj [(''gamePk'', JNum 2019020345),
                (''status'', JObj [(''abstractGameState'', JStr st)])])"
  by (simp add: scheduled_game_def schedule_fixture_def)

lemma scheduled_fixture_prev:
  "scheduled_game (schedule_fixture st) ''previousGameSchedule'' =
     Inr (JObj [(''gamePk'', JNum 2019020330),
                (''status'', JObj [(''abstractGameState'', JStr ''Final'')])])"
  by (simp add: scheduled_game_def schedule_fixture_def)

lemma fixture_home_person:
  "roster_person show_nat (JObj fixture_home_roster) (JNum 8479318) =
     Inr (JObj [(''id'', JNum 8479318), (''fullName'', JStr ''Auston Matthews''),
                (''primaryNumber'', JStr ''34'')])"
  "roster_person show_nat (JObj fixture_home_roster) (JNum 8475166) =
     Inr (JObj [(''id'', JNum 8475166), (''fullName'', JStr ''John Tavares''),
                (''primaryNumber'', JStr ''91'')])"
  by (simp_all add: roster_person_def fixture_home_roster_def fixture_player_def show_nat_eval)

lemma fixture_away_person:
  "roster_person show_nat (JObj fixture_away_roster) (JNum 8471679) =
     Inr (JObj [(''id'', JNum 8471679), (''fullName'', JStr ''Carey Price''),
                (''primaryNumber'', JStr ''31'')])"
  "roster_person show_nat (JObj fixture_away_roster) (JNum 8470642) =
     Inr (JObj [(''id'', JNum 8470642), (''fullName'', JStr ''Shea Weber''),
                (''primaryNumber'', JStr ''6'')])"
  by (simp_all add: roster_person_def fixture_away_roster_def fixture_player_def show_nat_eval)

lemma fixture_game_url:
  "getGameStats_requestURL show_nat (JNum 2019020345) =
     Inr ''https://statsapi.web.nhl.com/api/v1/game/2019020345/boxscore''"
  by (simp add: getGameStats_requestURL_def show_nat_eval)

lemma fixture_team_url:
  "getCurrentGame_requestURL 10 =
     ''https://statsapi.web.nhl.com/api/v1/teams/10?expand=team.schedule.next&&expand=team.schedule.previous''"
  by (simp add: getCurrentGame_requestURL_def show_nat_eval)

section \<open>Lemmas on the multipart middleware\<close>



section \<open>The claims\<close>

text \<open>
  Claim C1. When the schedule document has a next game whose \<^verbatim>\<open>abstractGameState\<close> is
  the string \<^verbatim>\<open>Live\<close>, the game identifier is the \<^verbatim>\<open>gamePk\<close> of that game; when the
  state is any other string (or a number, a boolean, \<^verbatim>\<open>null\<close>, or absent), it is the
  \<^verbatim>\<open>gamePk\<close> of the previous game. This identifier is the one \<^verbatim>\<open>getCurrentGame\<close>
  passes to \<^verbatim>\<open>getGameStats\<close>.
\<close>

theorem live_game_policy:
  assumes "fetch (getCurrentGame_requestURL teamID) = Some (Inr json)"
    and "scheduled_game json ''nextGameSchedule'' = Inr nextGame"
    and "get_prop nextGame ''status'' = Inr status"
    and "get_prop status ''abstractGameState'' = Inr state"
    and "primitive state"
    and "state \<noteq> JStr ''Live'' \<Longrightarrow> scheduled_game json ''previousGameSchedule'' = Inr prevGame"
    and "get_prop (if state = JStr ''Live'' then nextGame else prevGame) ''gamePk'' = Inr gameId"
  shows "select_game ns json = Inr gameId
         \<and> getCurrentGame ns fetch teamID =
             (getCurrentGame_requestURL teamID # fst (getGameStats ns fetch gameId),
              snd (getGameStats ns fetch gameId))"
proof -
  have sel: "select_game ns json = Inr gameId"
  proof (cases "state = JStr ''Live''")
    case True
    then show ?thesis using assms(2,3,4,7) by (simp add: select_game_def)
  next
    case False
    then show ?thesis
      using assms(2,3,4,5,7) assms(6) [OF False]
      by (simp add: select_game_def loose_eq_Live_primitive)
  qed
  show ?thesis using sel assms(1) by (simp add: getCurrentGame_selected)
qed

text \<open>
  Both branches on the schedule fixture: with the next game live its identifier 2019020345
  is selected and its boxscore requested; with the next game in preview the previous game
  2019020330 is selected.
\<close>

theorem live_game_policy_witness:
  "select_game show_nat (schedule_fixture ''Live'') = Inr (JNum 2019020345)
   \<and> select_game show_nat (schedule_fixture ''Preview'') = Inr (JNum 2019020330)
   \<and> fst (getCurrentGame show_nat (\<lambda>url. Some (Inr (schedule_fixture ''Live''))) 10) =
       [''https://statsapi.web.nhl.com/api/v1/teams/10?expand=team.schedule.next&&expand=team.schedule.previous'',
        ''https://statsapi.web.nhl.com/api/v1/game/2019020345/boxscore'']"
proof -
  let ?prev = "JObj [(''gamePk'', JNum (2019020330::nat)),
                     (''status'', JObj [(''abstractGameState'', JStr ''Final'')])]"
  let ?live = "\<lambda>url::string. Some (Inr (schedule_fixture ''Live'') :: error + nat jsval)"
  let ?preview = "\<lambda>url::string. Some (Inr (schedule_fixture ''Preview'') :: error + nat jsval)"
  have live:
    "select_game show_nat (schedule_fixture ''Live'') = Inr (JNum 2019020345)
     \<and> getCurrentGame show_nat ?live 10 =
         (getCurrentGame_requestURL 10 # fst (getGameStats show_nat ?live (JNum 2019020345)),
          snd (getGameStats show_nat ?live (JNum 2019020345)))"
    by (rule live_game_policy
          [where nextGame = "JObj [(''gamePk'', JNum (2019020345::nat)),
                                   (''status'', JObj [(''abstractGameState'', JStr ''Live'')])]"
             and status = "JObj [(''abstractGameState'', JStr ''Live'')]"
             and state = "JStr ''Live''" and prevGame = ?prev])
       (simp_all add: scheduled_fixture_next)
  have preview:
    "select_game show_nat (schedule_fixture ''Preview'') = Inr (JNum 2019020330)
     \<and> getCurrentGame show_nat ?preview 10 =
         (getCurrentGame_requestURL 10 # fst (getGameStats show_nat ?preview (JNum 2019020330)),
          snd (getGameStats show_nat ?preview (JNum 2019020330)))"
    by (rule live_game_policy
          [where nextGame = "JObj [(''gamePk'', JNum (2019020345::nat)),
                                   (''status'', JObj [(''abstractGameState'', JStr ''Preview'')])]"
             and status = "JObj [(''abstractGameState'', JStr ''Preview'')]"
             and state = "JStr ''Preview''" and prevGame = ?prev])
       (simp_all add: scheduled_fixture_next scheduled_fixture_prev)
  have requested:
    "fst (getGameStats show_nat ?live (JNum 2019020345)) =
       [''https://statsapi.web.nhl.com/api/v1/game/2019020345/boxscore'']"
    by (simp add: getGameStats_def fixture_game_url)
  have "fst (getCurrentGame show_nat ?live 10) =
          getCurrentGame_requestURL 10 # fst (getGameStats show_nat ?live (JNum 2019020345))"
    by (simp only: conjunct2 [OF live] fst_conv)
  then have "fst (getCurrentGame show_nat ?live 10) =
       [''https://statsapi.web.nhl.com/api/v1/teams/10?expand=team.schedule.next&&expand=team.schedule.previous'',
        ''https://statsapi.web.nhl.com/api/v1/game/2019020345/boxscore'']"
    by (simp only: requested fixture_team_url)
  with conjunct1 [OF live] conjunct1 [OF preview] show ?thesis by blast
qed

text \<open>
  Claim C2. When the detected text has a token that is a key of the team table, the first
  such token in reading order decides: with \<open>w\<close> that token and \<open>t\<close> its identifier,
  \<^verbatim>\<open>getTeamIdsFromText\<close> is the call \<^verbatim>\<open>getCurrentGame(t)\<close>, whatever tokens follow;
  \<open>t\<close> is \<^verbatim>\<open>teams[0]\<close> and the first address requested is that of the schedule of \<open>t\<close>.
\<close>

theorem first_team_decides:
  assumes "spec_tokens txt = pre @ w # post"
    and "filter (\<lambda>x. x \<in> set (map fst teamNameMap)) pre = []"
    and "map_of teamNameMap w = Some t"
  shows "getTeamIdsFromText ns fetch txt = getCurrentGame ns fetch t
         \<and> hd (collect_teams (js_split txt)) = t
         \<and> hd (fst (getTeamIdsFromText ns fetch txt)) = getCurrentGame_requestURL t"
proof -
  have key: "hasOwnProperty teamNameMap w"
    using assms(3) by (simp add: hasOwn_iff)
  have pre: "filter (hasOwnProperty teamNameMap) pre = []"
    using assms(2) by (simp add: hasOwn_fun)
  have teams: "collect_teams (js_split txt) =
      t # map (\<lambda>w. the (map_of teamNameMap w)) (filter (hasOwnProperty teamNameMap) post)"
    using assms(1,3) key pre by (simp add: collect_teams_tokens)
  have g: "getTeamIdsFromText ns fetch txt = getCurrentGame ns fetch t"
    by (simp add: getTeamIdsFromText_def teams)
  have u: "hd (fst (getCurrentGame ns fetch t)) = getCurrentGame_requestURL t"
    by (simp add: getCurrentGame_def Let_def split: option.split sum.split prod.split)
  show ?thesis using g u teams by simp
qed

text \<open>
  A text with a token that is no key, then \<^verbatim>\<open>TOR\<close>, then \<^verbatim>\<open>MTL\<close>: team 10 is queried.
\<close>

theorem first_team_decides_witness:
  "getTeamIdsFromText show_nat (\<lambda>url. None) ''Leafs\<newline>TOR 3  MTL 2'' =
     (getCurrentGame show_nat (\<lambda>url. None) 10 :: string list \<times> nat jsval promise)
   \<and> hd (collect_teams (js_split ''Leafs\<newline>TOR 3  MTL 2'')) = 10
   \<and> hd (fst (getTeamIdsFromText show_nat
                 (\<lambda>url. None :: (error + nat jsval) option) ''Leafs\<newline>TOR 3  MTL 2'')) =
       ''https://statsapi.web.nhl.com/api/v1/teams/10?expand=team.schedule.next&&expand=team.schedule.previous''"
proof -
  have tokens: "spec_tokens ''Leafs\<newline>TOR 3  MTL 2'' = [''Leafs''] @ ''TOR'' # [''3'', ''MTL'', ''2'']"
    by (simp add: spec_tokens_Nil spec_tokens_ws spec_tokens_tok is_ws_def)
  have pre: "filter (\<lambda>x. x \<in> set (map fst teamNameMap)) [''Leafs''] = []"
    by (simp add: teamNameMap_def)
  have key: "map_of teamNameMap ''TOR'' = Some 10"
    by (simp add: teamNameMap_def)
  show ?thesis
    by (rule first_team_decides [OF tokens pre key, unfolded fixture_team_url])
qed

text \<open>
  Claim C3. When no token of the detected text is a key of the team table,
  \<^verbatim>\<open>getTeamIdsFromText\<close> resolves to the empty object and requests nothing from the
  statistics service.
\<close>

theorem no_team_no_request:
  assumes "filter (\<lambda>w. w \<in> set (map fst teamNameMap)) (spec_tokens txt) = []"
  shows "getTeamIdsFromText ns fetch txt = ([], Resolved (JObj []))"
  using assms
  by (simp add: getTeamIdsFromText_def collect_teams_tokens hasOwn_fun)

text \<open>A text whose tokens are no keys: wrong case, and a name every object inherits.\<close>

theorem no_team_no_request_witness:
  "getTeamIdsFromText show_nat (\<lambda>url. Some (Inr (schedule_fixture ''Live'')))
      ''Hockey  night toString nyr '' = ([], Resolved (JObj []))"
proof -
  have "spec_tokens ''Hockey  night toString nyr '' =
          [''Hockey'', ''night'', ''toString'', ''nyr'']"
    by (simp add: spec_tokens_Nil spec_tokens_ws spec_tokens_tok is_ws_def)
  then have
    "filter (\<lambda>w. w \<in> set (map fst teamNameMap)) (spec_tokens ''Hockey  night toString nyr '') = []"
    by (simp add: teamNameMap_def)
  then show ?thesis by (rule no_team_no_request)
qed

text \<open>
  Claim C4. When the key paths of a boxscore document resolve (each side has a team, an
  array \<^verbatim>\<open>onIce\<close> and, for every identifier in it, an entry \<^verbatim>\<open>"ID" + playerId\<close> of
  \<^verbatim>\<open>players\<close> with a \<^verbatim>\<open>person\<close>), \<^verbatim>\<open>formatJson\<close> returns an object with the members
  \<^verbatim>\<open>home\<close> and \<^verbatim>\<open>away\<close> only, each with the members \<^verbatim>\<open>name\<close> and \<^verbatim>\<open>onIce\<close> only,
  where \<^verbatim>\<open>onIce\<close> has one record per identifier, in order, with the members
  \<^verbatim>\<open>fullName\<close> and \<^verbatim>\<open>number\<close> only, copied from \<^verbatim>\<open>fullName\<close> and
  \<^verbatim>\<open>primaryNumber\<close> of that person.
\<close>

theorem formatJson_view:
  assumes "get_prop json ''teams'' = Inr teams"
    and "get_prop teams ''home'' = Inr home"
    and "get_prop teams ''away'' = Inr away"
    and "get_prop home ''team'' = Inr home_team"
    and "get_prop home_team ''name'' = Inr home_name"
    and "get_prop away ''team'' = Inr away_team"
    and "get_prop away_team ''name'' = Inr away_name"
    and "get_prop home ''onIce'' = Inr (JArr home_ids)"
    and "get_prop home ''players'' = Inr home_players"
    and "get_prop away ''onIce'' = Inr (JArr away_ids)"
    and "get_prop away ''players'' = Inr away_players"
    and "\<forall>pid\<in>set home_ids. \<exists>p. roster_person ns home_players pid = Inr p \<and> \<not> nullish p"
    and "\<forall>pid\<in>set away_ids. \<exists>p. roster_person ns away_players pid = Inr p \<and> \<not> nullish p"
  shows "\<exists>home_recs away_recs.
           formatJson ns json =
             Inr (JObj [(''home'', JObj [(''name'', home_name), (''onIce'', JArr home_recs)]),
                        (''away'', JObj [(''name'', away_name), (''onIce'', JArr away_recs)])])
         \<and> list_all2 (\<lambda>pid r. \<exists>person fullName number.
               roster_person ns home_players pid = Inr person
             \<and> get_prop person ''fullName'' = Inr fullName
             \<and> get_prop person ''primaryNumber'' = Inr number
             \<and> r = JObj [(''fullName'', fullName), (''number'', number)]) home_ids home_recs
         \<and> list_all2 (\<lambda>pid r. \<exists>person fullName number.
               roster_person ns away_players pid = Inr person
             \<and> get_prop person ''fullName'' = Inr fullName
             \<and> get_prop person ''primaryNumber'' = Inr number
             \<and> r = JObj [(''fullName'', fullName), (''number'', number)]) away_ids away_recs"
proof -
  have hn: "team_name json ''home'' = Inr home_name"
    using assms(1,2,4,5) by (simp add: team_name_def)
  have an: "team_name json ''away'' = Inr away_name"
    using assms(1,3,6,7) by (simp add: team_name_def)
  from on_ice_ok [OF assms(1,2,8,9,12)] obtain hr where
    h: "on_ice ns json ''home'' = Inr (JArr hr)"
    and hl: "list_all2 (\<lambda>pid r. \<exists>person fullName number.
               roster_person ns home_players pid = Inr person
             \<and> get_prop person ''fullName'' = Inr fullName
             \<and> get_prop person ''primaryNumber'' = Inr number
             \<and> r = JObj [(''fullName'', fullName), (''number'', number)]) home_ids hr"
    by blast
  from on_ice_ok [OF assms(1,3,10,11,13)] obtain ar where
    a: "on_ice ns json ''away'' = Inr (JArr ar)"
    and al: "list_all2 (\<lambda>pid r. \<exists>person fullName number.
               roster_person ns away_players pid = Inr person
             \<and> get_prop person ''fullName'' = Inr fullName
             \<and> get_prop person ''primaryNumber'' = Inr number
             \<and> r = JObj [(''fullName'', fullName), (''number'', number)]) away_ids ar"
    by blast
  have "formatJson ns json =
          Inr (JObj [(''home'', JObj [(''name'', home_name), (''onIce'', JArr hr)]),
                     (''away'', JObj [(''name'', away_name), (''onIce'', JArr ar)])])"
    by (simp add: formatJson_def hn an h a)
  then show ?thesis using hl al by blast
qed

text \<open>The boxscore fixture with two players on the ice on each side.\<close>

theorem formatJson_view_witness:
  "formatJson show_nat (boxscore_fixture [JNum 8479318, JNum 8475166]) =
     Inr (JObj
       [(''home'', JObj
          [(''name'', JStr ''Toronto Maple Leafs''),
           (''onIce'', JArr [JObj [(''fullName'', JStr ''Auston Matthews''), (''number'', JStr ''34'')],
                             JObj [(''fullName'', JStr ''John Tavares''), (''number'', JStr ''91'')]])]),
        (''away'', JObj
          [(''name'', JStr ''Montreal Canadiens''),
           (''onIce'', JArr [JObj [(''fullName'', JStr ''Carey Price''), (''number'', JStr ''31'')],
                             JObj [(''fullName'', JStr ''Shea Weber''), (''number'', JStr ''6'')]])])])"
proof -
  let ?ids = "[JNum 8479318, JNum (8475166::nat)]"
  have "\<exists>home_recs away_recs.
           formatJson show_nat (boxscore_fixture ?ids) =
             Inr (JObj [(''home'', JObj [(''name'', JStr ''Toronto Maple Leafs''), (''onIce'', JArr home_recs)]),
                        (''away'', JObj [(''name'', JStr ''Montreal Canadiens''), (''onIce'', JArr away_recs)])])
         \<and> list_all2 (\<lambda>pid r. \<exists>person fullName number.
               roster_person show_nat (JObj fixture_home_roster) pid = Inr person
             \<and> get_prop person ''fullName'' = Inr fullName
             \<and> get_prop person ''primaryNumber'' = Inr number
             \<and> r = JObj [(''fullName'', fullName), (''number'', number)]) ?ids home_recs
         \<and> list_all2 (\<lambda>pid r. \<exists>person fullName number.
               roster_person show_nat (JObj fixture_away_roster) pid = Inr person
             \<and> get_prop person ''fullName'' = Inr fullName
             \<and> get_prop person ''primaryNumber'' = Inr number
             \<and> r = JObj [(''fullName'', fullName), (''number'', number)])
               [JNum 8471679, JNum 8470642] away_recs"
    by (rule formatJson_view
          [where teams = "JObj [(''away'', fixture_away), (''home'', fixture_home ?ids)]"
             and home = "fixture_home ?ids" and away = fixture_away
             and home_team = "JObj [(''id'', JNum 10), (''name'', JStr ''Toronto Maple Leafs'')]"
             and away_team = "JObj [(''id'', JNum 8), (''name'', JStr ''Montreal Canadiens'')]"])
       (simp_all add: boxscore_fixture_def fixture_home_def fixture_away_def
          fixture_home_person fixture_away_person)
  then show ?thesis
    by (auto simp: list_all2_Cons1 fixture_home_person fixture_away_person)
qed

text \<open>
  Claim C5 fails on the code. With an empty annotation sequence the handler sends status
  404 and the body \<^verbatim>\<open>{"error":"No text in image"}\<close>, resolves no team and requests
  nothing from the statistics service; but the branch does not return, so the handler then
  calls \<^verbatim>\<open>res.status(200).json(undefined)\<close>, a second response for the same request.
\<close>

theorem empty_detection_second_response:
  "upload_handler (sv\<lparr>store_write := \<lambda>name bytes. None, textDetection := \<lambda>url. Inr []\<rparr>)
       (Some file) =
     [StoreWrite (originalname file) (buffer file),
      TextDetect (''https://storage.googleapis.com/'' @ bucket_name sv @ ''/'' @ originalname file),
      Status 404, Send (JObj [(''error'', JStr ''No text in image'')]),
      Status 200, Json JUndefined]"
  by (simp add: upload_handler_def on_finish_def)

text \<open>
  Claim C6. The list \<^verbatim>\<open>teams\<close> that \<^verbatim>\<open>getTeamIdsFromText\<close> builds from a text equals
  the reference: the tokens between runs of white space that are keys of the table, in
  order and with repetitions, each replaced by its identifier. The table has 31 entries
  with distinct keys.
\<close>

theorem teams_refine_reference:
  "collect_teams (js_split txt) = spec_team_ids txt
   \<and> length teamNameMap = 31 \<and> distinct (map fst teamNameMap)"
  by (simp add: collect_teams_tokens spec_team_ids_alt table_size)




text \<open>
  Claim C8. When an identifier in the \<^verbatim>\<open>onIce\<close> array of a side has no entry
  \<^verbatim>\<open>"ID" + playerId\<close> in the \<^verbatim>\<open>players\<close> of that side, \<^verbatim>\<open>formatJson\<close> throws a
  TypeError, and \<^verbatim>\<open>getGameStats\<close>, having received that document, rejects with it.
\<close>

theorem missing_player_rejects:
  assumes "side = ''home'' \<or> side = ''away''"
    and "get_prop json ''teams'' = Inr teams"
    and "get_prop teams side = Inr s"
    and "get_prop s ''onIce'' = Inr (JArr ids)"
    and "get_prop s ''players'' = Inr players"
    and "playerId \<in> set ids"
    and "to_str ns playerId = Inr pid"
    and "get_prop players (''ID'' @ pid) = Inr JUndefined"
    and "getGameStats_requestURL ns gameID = Inr requestURL"
    and "fetch requestURL = Some (Inr json)"
  shows "formatJson ns json = Inl TypeError
         \<and> getGameStats ns fetch gameID = ([requestURL], Rejected TypeError)"
proof -
  obtain e where e: "on_ice ns json side = Inl e"
    using on_ice_missing [OF assms(2-8)] by blast
  have "formatJson ns json \<noteq> Inr v" for v
    using formatJson_needs_on_ice [of ns json v] e assms(1) by auto
  then obtain e' where "formatJson ns json = Inl e'"
    by (cases "formatJson ns json") auto
  then have f: "formatJson ns json = Inl TypeError"
    using formatJson_error by blast
  show ?thesis using f assms(9,10) by (simp add: getGameStats_def)
qed

text \<open>The boxscore fixture with player 8477939 on the ice of the home side but not in its roster.\<close>

theorem missing_player_rejects_witness:
  "formatJson show_nat (boxscore_fixture [JNum 8479318, JNum 8477939]) = Inl TypeError
   \<and> getGameStats show_nat (\<lambda>url. Some (Inr (boxscore_fixture [JNum 8479318, JNum 8477939])))
        (JNum 2019020345) =
       ([''https://statsapi.web.nhl.com/api/v1/game/2019020345/boxscore''], Rejected TypeError)"
  by (rule missing_player_rejects
        [where side = "''home''"
           and teams = "JObj [(''away'', fixture_away),
                              (''home'', fixture_home [JNum 8479318, JNum 8477939])]"
           and s = "fixture_home [JNum 8479318, JNum 8477939]"
           and ids = "[JNum 8479318, JNum 8477939]"
           and players = "JObj fixture_home_roster"
           and playerId = "JNum 8477939" and pid = "''8477939''"])
     (simp_all add: boxscore_fixture_def fixture_home_def fixture_home_roster_def
        fixture_player_def show_nat_eval fixture_game_url)

text \<open>
  Claim C9 fails on the code. The address of the schedule request has two ampersands
  between the two \<^verbatim>\<open>expand\<close> parameters, for every team identifier, and so differs
  from the address with a single ampersand.
\<close>

theorem schedule_url_double_ampersand:
  "getCurrentGame_requestURL t =
     ''https://statsapi.web.nhl.com/api/v1/teams/'' @ show_nat t
       @ ''?expand=team.schedule.next&&expand=team.schedule.previous''
   \<and> getCurrentGame_requestURL t \<noteq>
     ''https://statsapi.web.nhl.com/api/v1/teams/'' @ show_nat t
       @ ''?expand=team.schedule.next&expand=team.schedule.previous''
   \<and> getCurrentGame_requestURL 10 =
     ''https://statsapi.web.nhl.com/api/v1/teams/10?expand=team.schedule.next&&expand=team.schedule.previous''"
  by (simp add: getCurrentGame_requestURL_def show_nat_eval)

text \<open>
  Claim C10. A token that is not one of the keys written in the team table pushes nothing
  and leaves the collected identifiers as they are without it; in particular the names
  every object inherits (\<^verbatim>\<open>toString\<close>, \<^verbatim>\<open>constructor\<close>, \<^verbatim>\<open>hasOwnProperty\<close>, ...)
  give no identifier, since the test is on the table's own members.
\<close>

theorem non_key_token_ignored:
  assumes "w \<notin> set (map fst teamNameMap)"
  shows "push_team teams w = teams
         \<and> collect_teams (pre @ w # post) = collect_teams (pre @ post)
         \<and> collect_teams object_prototype_names = []"
  using assms inherited_names_not_keys
  by (simp add: push_team_def collect_teams_def hasOwnProperty_def foldl_push_team)

text \<open>The token \<^verbatim>\<open>toString\<close> between two keys.\<close>

theorem non_key_token_ignored_witness:
  "push_team [10] ''toString'' = [10]
   \<and> collect_teams ([''TOR''] @ ''toString'' # [''MTL'']) = collect_teams ([''TOR''] @ [''MTL''])
   \<and> collect_teams object_prototype_names = []"
proof -
  have "''toString'' \<notin> set (map fst teamNameMap)"
    by (simp add: teamNameMap_def)
  then show ?thesis by (rule non_key_token_ignored)
qed

end
